theory Spec2Isabelle
  imports Main
begin

section \<open>The generated plugin registrant of the Linux gallery application\<close>

text \<open>
  The source file \<^verbatim>\<open>linux/flutter/generated_plugin_registrant.cc\<close> holds one function:
  \<^verbatim>\<open>
  void fl_register_plugins(FlPluginRegistry* registry) {
    g_autoptr(FlPluginRegistrar) url_launcher_linux_registrar =
        fl_plugin_registry_get_registrar_for_plugin(registry, "UrlLauncherPlugin");
    url_launcher_plugin_register_with_registrar(url_launcher_linux_registrar);
  }
  \<close>
  Everything it calls lives in other libraries (the Linux embedder, the url launcher plugin
  and GLib), so those routines are parameters of the model, and what the function does is
  read off the calls it makes to them.
\<close>

subsection \<open>Handles\<close>

text \<open>
  Both pointer types are opaque to the registrant: it never dereferences them. A handle is
  an address, and the address \<open>0\<close> is the null pointer.
\<close>

type_synonym FlPluginRegistry_ptr = nat
type_synonym FlPluginRegistrar_ptr = nat

definition NULL :: nat where
  "NULL = 0"

subsection \<open>The routines the registrant calls\<close>

text \<open>
  The three external routines, over an arbitrary state \<open>'w\<close> of the rest of the process
  (the registry object, the plugin, reference counts, the heap):
    \<^item> the embedder's lookup, which takes the registry and a plugin name and returns a
      registrar;
    \<^item> the url launcher plugin's registration routine, which takes a registrar and
      returns nothing;
    \<^item> the cleanup that \<^verbatim>\<open>g_autoptr(FlPluginRegistrar)\<close> attaches to the local
      variable, which runs on the variable's value when the variable leaves scope and
      returns nothing (in GLib it drops one reference unless the pointer is null).
\<close>

record 'w env =
  fl_plugin_registry_get_registrar_for_plugin ::
    "FlPluginRegistry_ptr \<Rightarrow> string \<Rightarrow> 'w \<Rightarrow> FlPluginRegistrar_ptr \<times> 'w"
  url_launcher_plugin_register_with_registrar ::
    "FlPluginRegistrar_ptr \<Rightarrow> 'w \<Rightarrow> 'w"
  glib_autoptr_cleanup_FlPluginRegistrar ::
    "FlPluginRegistrar_ptr \<Rightarrow> 'w \<Rightarrow> 'w"

subsection \<open>Calls and the machine state\<close>

text \<open>A call made by the registrant, with the arguments it passed.\<close>

datatype call =
    Get_Registrar_For_Plugin FlPluginRegistry_ptr string
  | Register_With_Registrar FlPluginRegistrar_ptr
  | Autoptr_Cleanup FlPluginRegistrar_ptr

text \<open>
  \<open>Register_With_Registrar\<close> stands for a call of the plugin registration routine
  \<^verbatim>\<open>url_launcher_plugin_register_with_registrar\<close>, \<open>Get_Registrar_For_Plugin\<close> for a
  call of the embedder's lookup and \<open>Autoptr_Cleanup\<close> for a call of the GLib cleanup.
\<close>

fun is_plugin_registration :: "call \<Rightarrow> bool" where
  "is_plugin_registration (Register_With_Registrar registrar) = True"
| "is_plugin_registration (Get_Registrar_For_Plugin registry name) = False"
| "is_plugin_registration (Autoptr_Cleanup registrar) = False"

fun is_registrar_lookup :: "call \<Rightarrow> bool" where
  "is_registrar_lookup (Get_Registrar_For_Plugin registry name) = True"
| "is_registrar_lookup (Register_With_Registrar registrar) = False"
| "is_registrar_lookup (Autoptr_Cleanup registrar) = False"

text \<open>
  The machine state is the state of the rest of the process together with the log of the
  calls made so far, oldest first.
\<close>

record 'w machine =
  calls :: "call list"
  world :: 'w

text \<open>Each external call is logged and then handed to the environment.\<close>

definition call_get_registrar_for_plugin ::
  "'w env \<Rightarrow> FlPluginRegistry_ptr \<Rightarrow> string \<Rightarrow> 'w machine
     \<Rightarrow> FlPluginRegistrar_ptr \<times> 'w machine" where
  "call_get_registrar_for_plugin E registry name m =
     (let (registrar, w) = fl_plugin_registry_get_registrar_for_plugin E registry name (world m)
      in (registrar,
          \<lparr>calls = calls m @ [Get_Registrar_For_Plugin registry name], world = w\<rparr>))"

definition call_register_with_registrar ::
  "'w env \<Rightarrow> FlPluginRegistrar_ptr \<Rightarrow> 'w machine \<Rightarrow> 'w machine" where
  "call_register_with_registrar E registrar m =
     \<lparr>calls = calls m @ [Register_With_Registrar registrar],
      world = url_launcher_plugin_register_with_registrar E registrar (world m)\<rparr>"

definition call_autoptr_cleanup ::
  "'w env \<Rightarrow> FlPluginRegistrar_ptr \<Rightarrow> 'w machine \<Rightarrow> 'w machine" where
  "call_autoptr_cleanup E registrar m =
     \<lparr>calls = calls m @ [Autoptr_Cleanup registrar],
      world = glib_autoptr_cleanup_FlPluginRegistrar E registrar (world m)\<rparr>"

subsection \<open>The registrant\<close>

text \<open>
  The body, statement by statement: the initialiser of the local variable, the
  registration call on the variable, and the cleanup of the variable at the closing brace.
  The function is \<^verbatim>\<open>void\<close>, so its result is the unit value.
\<close>

definition fl_register_plugins ::
  "'w env \<Rightarrow> FlPluginRegistry_ptr \<Rightarrow> 'w machine \<Rightarrow> unit \<times> 'w machine" where
  "fl_register_plugins E registry m0 =
     (let (url_launcher_linux_registrar, m1) =
            call_get_registrar_for_plugin E registry ''UrlLauncherPlugin'' m0;
          m2 = call_register_with_registrar E url_launcher_linux_registrar m1;
          m3 = call_autoptr_cleanup E url_launcher_linux_registrar m2
      in ((), m3))"

text \<open>The calls of one run that starts with the process in state \<open>w\<close>.\<close>

definition calls_made :: "'w env \<Rightarrow> FlPluginRegistry_ptr \<Rightarrow> 'w \<Rightarrow> call list" where
  "calls_made E registry w =
     calls (snd (fl_register_plugins E registry \<lparr>calls = [], world = w\<rparr>))"

text \<open>The state of the process after one run.\<close>

definition world_after :: "'w env \<Rightarrow> FlPluginRegistry_ptr \<Rightarrow> 'w \<Rightarrow> 'w" where
  "world_after E registry w =
     world (snd (fl_register_plugins E registry \<lparr>calls = [], world = w\<rparr>))"

subsection \<open>What the external routines receive\<close>

text \<open>
  To observe the calls from the side of the callees, an environment is wrapped so that
  each of its routines, when it is entered, notes down the arguments it was given and then
  does what the wrapped routine does. The notes are part of the state of the wrapped
  environment; the registrant has no way to write them except by calling the routines.
\<close>

definition recording :: "'w env \<Rightarrow> ('w \<times> call list) env" where
  "recording E =
     \<lparr>fl_plugin_registry_get_registrar_for_plugin =
        (\<lambda>registry name (w, seen).
           (fst (fl_plugin_registry_get_registrar_for_plugin E registry name w),
            (snd (fl_plugin_registry_get_registrar_for_plugin E registry name w),
             seen @ [Get_Registrar_For_Plugin registry name]))),
      url_launcher_plugin_register_with_registrar =
        (\<lambda>registrar (w, seen).
           (url_launcher_plugin_register_with_registrar E registrar w,
            seen @ [Register_With_Registrar registrar])),
      glib_autoptr_cleanup_FlPluginRegistrar =
        (\<lambda>registrar (w, seen).
           (glib_autoptr_cleanup_FlPluginRegistrar E registrar w,
            seen @ [Autoptr_Cleanup registrar]))\<rparr>"

text \<open>
  The calls the routines of \<open>E\<close> receive, in order, during one run that starts with the
  process in state \<open>w\<close>.
\<close>

definition received :: "'w env \<Rightarrow> FlPluginRegistry_ptr \<Rightarrow> 'w \<Rightarrow> call list" where
  "received E registry w = snd (world_after (recording E) registry (w, []))"

subsection \<open>An environment to run the registrant in\<close>

text \<open>
  A small process state: the address of the next registrar object the registry will hand
  out, the registrars the url launcher plugin has been registered with, and the registrars
  whose reference has been dropped.
\<close>

record view_world =
  next_registrar :: nat
  registered :: "nat list"
  released :: "nat list"

text \<open>
  A registry that creates a new registrar object for every lookup (and answers a null
  registry with a null registrar), a plugin that records the registrar it is given, and a
  cleanup that drops the reference unless the pointer is null.
\<close>

definition fresh_registrar_env :: "view_world env" where
  "fresh_registrar_env =
     \<lparr>fl_plugin_registry_get_registrar_for_plugin =
        (\<lambda>registry name w.
           if registry = NULL then (NULL, w)
           else (next_registrar w, w\<lparr>next_registrar := Suc (next_registrar w)\<rparr>)),
      url_launcher_plugin_register_with_registrar =
        (\<lambda>registrar w. w\<lparr>registered := registered w @ [registrar]\<rparr>),
      glib_autoptr_cleanup_FlPluginRegistrar =
        (\<lambda>registrar w. if registrar = NULL then w
                        else w\<lparr>released := released w @ [registrar]\<rparr>)\<rparr>"

definition start_world :: view_world where
  "start_world = \<lparr>next_registrar = 7, registered = [], released = []\<rparr>"

section \<open>What one run does\<close>

text \<open>
  One run appends three calls to the log: the lookup, the registration on the registrar
  the lookup returned, and the cleanup of that registrar.
\<close>

lemma calls_made_eq:
  "calls_made E registry w =
     [Get_Registrar_For_Plugin registry ''UrlLauncherPlugin'',
      Register_With_Registrar
        (fst (fl_plugin_registry_get_registrar_for_plugin E registry ''UrlLauncherPlugin'' w)),
      Autoptr_Cleanup
        (fst (fl_plugin_registry_get_registrar_for_plugin E registry ''UrlLauncherPlugin'' w))]"
  by (simp add: calls_made_def fl_register_plugins_def call_get_registrar_for_plugin_def
      call_register_with_registrar_def call_autoptr_cleanup_def split: prod.split)

lemma fl_register_plugins_appends:
  "calls (snd (fl_register_plugins E registry m)) = calls m @ calls_made E registry (world m)"
  by (simp add: calls_made_def fl_register_plugins_def call_get_registrar_for_plugin_def
      call_register_with_registrar_def call_autoptr_cleanup_def split: prod.split)

lemma fl_register_plugins_world:
  "world (snd (fl_register_plugins E registry m)) = world_after E registry (world m)"
  by (simp add: world_after_def fl_register_plugins_def call_get_registrar_for_plugin_def
      call_register_with_registrar_def call_autoptr_cleanup_def split: prod.split)

lemma fresh_lookup [simp]:
  "fl_plugin_registry_get_registrar_for_plugin fresh_registrar_env registry name w =
     (if registry = NULL then (NULL, w)
      else (next_registrar w, w\<lparr>next_registrar := Suc (next_registrar w)\<rparr>))"
  by (simp add: fresh_registrar_env_def)

lemma fresh_register [simp]:
  "url_launcher_plugin_register_with_registrar fresh_registrar_env registrar w =
     w\<lparr>registered := registered w @ [registrar]\<rparr>"
  by (simp add: fresh_registrar_env_def)

lemma fresh_cleanup [simp]:
  "glib_autoptr_cleanup_FlPluginRegistrar fresh_registrar_env registrar w =
     (if registrar = NULL then w else w\<lparr>released := released w @ [registrar]\<rparr>)"
  by (simp add: fresh_registrar_env_def)

lemma world_after_eq:
  "world_after E registry w =
     glib_autoptr_cleanup_FlPluginRegistrar E
       (fst (fl_plugin_registry_get_registrar_for_plugin E registry ''UrlLauncherPlugin'' w))
       (url_launcher_plugin_register_with_registrar E
          (fst (fl_plugin_registry_get_registrar_for_plugin E registry ''UrlLauncherPlugin'' w))
          (snd (fl_plugin_registry_get_registrar_for_plugin E registry ''UrlLauncherPlugin'' w)))"
  by (simp add: world_after_def fl_register_plugins_def call_get_registrar_for_plugin_def
      call_register_with_registrar_def call_autoptr_cleanup_def split: prod.split)

text \<open>
  The routines of the environment are entered three times in a run: the lookup with the
  registry handle and the plugin name, then the registration routine and then the cleanup,
  both with the registrar the lookup returned.
\<close>

lemma received_eq:
  "received E registry w =
     [Get_Registrar_For_Plugin registry ''UrlLauncherPlugin'',
      Register_With_Registrar
        (fst (fl_plugin_registry_get_registrar_for_plugin E registry ''UrlLauncherPlugin'' w)),
      Autoptr_Cleanup
        (fst (fl_plugin_registry_get_registrar_for_plugin E registry ''UrlLauncherPlugin'' w))]"
  by (simp add: received_def world_after_eq recording_def)

text \<open>Wrapping an environment does not change what a run does to the process.\<close>

lemma recording_world_after:
  "fst (world_after (recording E) registry (w, seen)) = world_after E registry w"
  by (simp add: world_after_eq recording_def)

text \<open>The log of the machine agrees with what the routines received.\<close>

lemma calls_made_received:
  "calls_made E registry w = received E registry w"
  by (simp add: calls_made_eq received_eq)

section \<open>The registration call\<close>

text \<open>
  Claim C1. For every registry handle, in every environment and every state of the
  process, a run of \<open>fl_register_plugins\<close> enters a plugin registration routine exactly
  once, and the routine is \<^verbatim>\<open>url_launcher_plugin_register_with_registrar\<close>: that
  routine of the environment notes one call, and the state the run leaves is the state
  after the lookup with that routine applied to it once (and the cleanup after it).
\<close>

theorem fl_register_plugins_one_registration:
  "length (filter is_plugin_registration (received E registry w)) = 1 \<and>
   world_after E registry w =
     glib_autoptr_cleanup_FlPluginRegistrar E
       (fst (fl_plugin_registry_get_registrar_for_plugin E registry ''UrlLauncherPlugin'' w))
       (url_launcher_plugin_register_with_registrar E
          (fst (fl_plugin_registry_get_registrar_for_plugin E registry ''UrlLauncherPlugin'' w))
          (snd (fl_plugin_registry_get_registrar_for_plugin E registry ''UrlLauncherPlugin'' w)))"
  by (simp add: received_eq world_after_eq)

text \<open>
  Claim C2. The argument that \<^verbatim>\<open>url_launcher_plugin_register_with_registrar\<close>
  receives is the registrar that \<^verbatim>\<open>fl_plugin_registry_get_registrar_for_plugin\<close>
  returned for the registry handle \<open>registry\<close> (and the plugin name of the source) in the
  state the run started in; the handle is passed on as it was returned. Accordingly the
  state the run leaves is the one the registration routine of the environment produces
  from that registrar and the state the lookup left (with the cleanup after it).
\<close>

theorem fl_register_plugins_forwards_registrar:
  "filter is_plugin_registration (received E registry w) =
     [Register_With_Registrar
        (fst (fl_plugin_registry_get_registrar_for_plugin E registry ''UrlLauncherPlugin'' w))] \<and>
   world_after E registry w =
     glib_autoptr_cleanup_FlPluginRegistrar E
       (fst (fl_plugin_registry_get_registrar_for_plugin E registry ''UrlLauncherPlugin'' w))
       (url_launcher_plugin_register_with_registrar E
          (fst (fl_plugin_registry_get_registrar_for_plugin E registry ''UrlLauncherPlugin'' w))
          (snd (fl_plugin_registry_get_registrar_for_plugin E registry ''UrlLauncherPlugin'' w)))"
  by (simp add: received_eq world_after_eq)

text \<open>
  Claim C3. There is no error branch. For every registry handle, the null handle included,
  whatever the lookup returns and whatever the machine state, the lookup routine and the
  registration routine of the environment are each entered once, and the state the run
  leaves has gone through the lookup, the registration and the cleanup: no input makes the
  run skip a call. The result type has no error value.
\<close>

theorem fl_register_plugins_no_error_branch:
  "length (filter is_registrar_lookup (received E registry (world m))) = 1 \<and>
   length (filter is_plugin_registration (received E registry (world m))) = 1 \<and>
   world (snd (fl_register_plugins E registry m)) =
     glib_autoptr_cleanup_FlPluginRegistrar E
       (fst (fl_plugin_registry_get_registrar_for_plugin E registry
               ''UrlLauncherPlugin'' (world m)))
       (url_launcher_plugin_register_with_registrar E
          (fst (fl_plugin_registry_get_registrar_for_plugin E registry
                  ''UrlLauncherPlugin'' (world m)))
          (snd (fl_plugin_registry_get_registrar_for_plugin E registry
                  ''UrlLauncherPlugin'' (world m))))"
  by (simp add: received_eq fl_register_plugins_world world_after_eq)

text \<open>
  The null registry in the sample environment: the lookup answers with the null registrar,
  and the registration routine is still entered, with the null registrar; the plugin has
  recorded it afterwards.
\<close>

lemma fl_register_plugins_null_registry:
  "received fresh_registrar_env NULL start_world =
     [Get_Registrar_For_Plugin NULL ''UrlLauncherPlugin'',
      Register_With_Registrar NULL,
      Autoptr_Cleanup NULL] \<and>
   registered (world_after fresh_registrar_env NULL start_world) = [NULL]"
  by (simp add: received_eq world_after_eq start_world_def)

text \<open>
  Claim C7. The plugin name of the lookup is the literal \<^verbatim>\<open>"UrlLauncherPlugin"\<close>: the
  lookup routine of the environment is entered once in a run, and it receives the registry
  handle as its first argument and that string as its second. Accordingly the registrar
  and the state that the rest of the run works on are the ones the lookup routine of the
  environment gives for that handle and that name.
\<close>

theorem fl_register_plugins_plugin_name:
  "filter is_registrar_lookup (received E registry w) =
     [Get_Registrar_For_Plugin registry ''UrlLauncherPlugin''] \<and>
   world_after E registry w =
     glib_autoptr_cleanup_FlPluginRegistrar E
       (fst (fl_plugin_registry_get_registrar_for_plugin E registry ''UrlLauncherPlugin'' w))
       (url_launcher_plugin_register_with_registrar E
          (fst (fl_plugin_registry_get_registrar_for_plugin E registry ''UrlLauncherPlugin'' w))
          (snd (fl_plugin_registry_get_registrar_for_plugin E registry ''UrlLauncherPlugin'' w)))"
  by (simp add: received_eq world_after_eq)

text \<open>
  Claim C8. The lookup comes strictly before the registration call: wherever a
  registration call stands in the calls of a run, the lookup of the registrar stands among
  the calls before it.
\<close>

theorem fl_register_plugins_lookup_first:
  assumes "calls_made E registry w = pre @ Register_With_Registrar registrar # post"
  shows "Get_Registrar_For_Plugin registry ''UrlLauncherPlugin'' \<in> set pre"
proof (cases pre)
  case Nil
  with assms show ?thesis
    by (simp add: calls_made_eq)
next
  case (Cons c cs)
  with assms have "c = Get_Registrar_For_Plugin registry ''UrlLauncherPlugin''"
    by (simp add: calls_made_eq)
  with Cons show ?thesis
    by simp
qed

theorem fl_register_plugins_lookup_first_witness:
  "calls_made fresh_registrar_env 1 start_world =
     [Get_Registrar_For_Plugin 1 ''UrlLauncherPlugin''] @
       Register_With_Registrar 7 # [Autoptr_Cleanup 7] \<and>
   Get_Registrar_For_Plugin 1 ''UrlLauncherPlugin''
     \<in> set [Get_Registrar_For_Plugin 1 ''UrlLauncherPlugin'']"
proof -
  have run: "calls_made fresh_registrar_env 1 start_world =
      [Get_Registrar_For_Plugin 1 ''UrlLauncherPlugin''] @
        Register_With_Registrar 7 # [Autoptr_Cleanup 7]"
    by (simp add: calls_made_eq NULL_def start_world_def)
  from fl_register_plugins_lookup_first [OF run] run show ?thesis
    by simp
qed

section \<open>What a run depends on and what it changes\<close>

text \<open>
  Claim C5, as stated, fails. The registrant keeps no state of its own, but the registrar
  it registers with is whatever the lookup returns, and that can differ between two runs
  on the same registry handle. In the sample environment, where the registry creates a new
  registrar object for every lookup, a second run on registry handle \<open>1\<close> right after a
  first one passes another registrar to the registration call and to the cleanup.
\<close>

theorem fl_register_plugins_runs_differ:
  "calls_made fresh_registrar_env 1 start_world \<noteq>
   calls_made fresh_registrar_env 1 (world_after fresh_registrar_env 1 start_world)"
  by (simp add: calls_made_eq world_after_eq NULL_def start_world_def)

text \<open>
  Claim C5, amended. The calls of a run and their arguments depend only on the registry
  argument and on the registrar the lookup returns: two runs on equal registry handles in
  which the lookup returns the same registrar make the same sequence of calls with the
  same arguments, whatever else differs between the two environments and the two states
  of the process.
\<close>

theorem fl_register_plugins_calls_determined:
  assumes "registry1 = registry2"
    and "fst (fl_plugin_registry_get_registrar_for_plugin E1 registry1 ''UrlLauncherPlugin'' w1) =
         fst (fl_plugin_registry_get_registrar_for_plugin E2 registry2 ''UrlLauncherPlugin'' w2)"
  shows "calls_made E1 registry1 w1 = calls_made E2 registry2 w2"
  using assms by (simp add: calls_made_eq)

theorem fl_register_plugins_calls_determined_witness:
  "(1::nat) = 1 \<and>
   fst (fl_plugin_registry_get_registrar_for_plugin fresh_registrar_env 1
          ''UrlLauncherPlugin'' start_world) =
   fst (fl_plugin_registry_get_registrar_for_plugin fresh_registrar_env 1
          ''UrlLauncherPlugin'' (start_world\<lparr>registered := [3], released := [3]\<rparr>)) \<and>
   start_world \<noteq> start_world\<lparr>registered := [3], released := [3]\<rparr> \<and>
   calls_made fresh_registrar_env 1 start_world =
   calls_made fresh_registrar_env 1 (start_world\<lparr>registered := [3], released := [3]\<rparr>)"
proof -
  have same: "fst (fl_plugin_registry_get_registrar_for_plugin fresh_registrar_env 1
          ''UrlLauncherPlugin'' start_world) =
      fst (fl_plugin_registry_get_registrar_for_plugin fresh_registrar_env 1
          ''UrlLauncherPlugin'' (start_world\<lparr>registered := [3], released := [3]\<rparr>))"
    by (simp add: NULL_def)
  have other: "start_world \<noteq> start_world\<lparr>registered := [3], released := [3]\<rparr>"
    by (simp add: start_world_def)
  from fl_register_plugins_calls_determined [OF refl same] same other show ?thesis
    by simp
qed

text \<open>
  Claim C6. The registrant takes the registry handle and returns the unit value. All it
  does to the process is the registration call on the registrar it looked up, between
  obtaining that registrar and giving up the local variable's reference to it at the
  closing brace: the log grows by exactly these three calls and the state of the process
  is the one the three routines leave.
\<close>

theorem fl_register_plugins_only_registers:
  "fl_register_plugins E registry m =
     ((),
      \<lparr>calls = calls m @
         [Get_Registrar_For_Plugin registry ''UrlLauncherPlugin'',
          Register_With_Registrar
            (fst (fl_plugin_registry_get_registrar_for_plugin E registry
                    ''UrlLauncherPlugin'' (world m))),
          Autoptr_Cleanup
            (fst (fl_plugin_registry_get_registrar_for_plugin E registry
                    ''UrlLauncherPlugin'' (world m)))],
       world =
         glib_autoptr_cleanup_FlPluginRegistrar E
           (fst (fl_plugin_registry_get_registrar_for_plugin E registry
                   ''UrlLauncherPlugin'' (world m)))
           (url_launcher_plugin_register_with_registrar E
              (fst (fl_plugin_registry_get_registrar_for_plugin E registry
                      ''UrlLauncherPlugin'' (world m)))
              (snd (fl_plugin_registry_get_registrar_for_plugin E registry
                      ''UrlLauncherPlugin'' (world m))))\<rparr>)"
  by (simp add: fl_register_plugins_def call_get_registrar_for_plugin_def
      call_register_with_registrar_def call_autoptr_cleanup_def split: prod.split)

end
